theory Spec2Isabelle
  imports Complex_Main "HOL-Library.AList"
begin

section \<open>JavaScript values\<close>

text \<open>
  The class \<open>Hint\<close> of \<open>src/packages/hint/hint.ts\<close> is written in TypeScript and
  runs as JavaScript. Its methods receive values whose run-time type the code tests
  itself (\<open>isFunction\<close>), read option records by key and index an array by a
  \<open>number\<close>, so the values are modelled as a datatype.

  A \<open>number\<close> is a double: a finite value (modelled by a real; negative zero is not
  kept apart from zero, neither the array index nor the comparison with zero tells
  them apart), \<open>NaN\<close> or an infinity.
\<close>

datatype number = Finite real | NaN | PosInfinity | NegInfinity

text \<open>A function object is known by its identity.\<close>

datatype func = Fn nat

datatype jsvalue =
    JUndefined
  | JNull
  | JBool bool
  | JNumber number
  | JString string
  | JFunction func
  | JObject "(string \<times> jsvalue) list"

text \<open>
  A plain object, such as an options record, is the list of its own properties in
  insertion order; a key occurs once.
\<close>

type_synonym props = "(string \<times> jsvalue) list"

datatype error = Error string | TypeError string

text \<open>
  Modelled from the spec: \<open>util/isFunction\<close> is not part of the sources. The spec
  tells its two answers apart as "a function" and "a non-function value": the test
  of the run-time type.
\<close>

definition isFunction :: "jsvalue \<Rightarrow> bool" where
  "isFunction v = (case v of JFunction f \<Rightarrow> True | _ \<Rightarrow> False)"

text \<open>JavaScript's \<open>ToBoolean\<close>, which \<open>!x\<close> and \<open>c ? a : b\<close> apply.\<close>

definition truthy :: "jsvalue \<Rightarrow> bool" where
  "truthy v =
     (case v of
        JUndefined \<Rightarrow> False
      | JNull \<Rightarrow> False
      | JBool b \<Rightarrow> b
      | JNumber n \<Rightarrow> (case n of Finite r \<Rightarrow> r \<noteq> 0 | NaN \<Rightarrow> False | _ \<Rightarrow> True)
      | JString s \<Rightarrow> s \<noteq> []
      | JFunction f \<Rightarrow> True
      | JObject kvs \<Rightarrow> True)"

text \<open>
  \<open>xs[k]\<close> on an array reads the element at \<open>k\<close> when \<open>k\<close> is an array index, a
  non-negative integer; any other number names a property the array does not have.
\<close>

definition arrayIndex :: "number \<Rightarrow> nat option" where
  "arrayIndex k =
     (case k of
        Finite r \<Rightarrow> if 0 \<le> r \<and> of_int \<lfloor>r\<rfloor> = r then Some (nat \<lfloor>r\<rfloor>) else None
      | _ \<Rightarrow> None)"

definition arrayGet :: "jsvalue list \<Rightarrow> number \<Rightarrow> jsvalue" where
  "arrayGet xs k =
     (case arrayIndex k of
        Some n \<Rightarrow> if n < length xs then xs ! n else JUndefined
      | None \<Rightarrow> JUndefined)"

section \<open>The state of a Hint and of the page\<close>

type_synonym element = nat
type_synonym ref = nat
type_synonym aref = nat

text \<open>The object \<open>callbacks\<close>: a key is absent until its registrar has stored it.\<close>

record callbacks =
  hintsAdded :: "jsvalue option"
  hintClick :: "jsvalue option"
  hintClose :: "jsvalue option"

text \<open>
  The fields of a \<open>Hint\<close>. The field \<open>_hints\<close> holds an array object by reference:
  \<open>setHints\<close> stores the array it is handed, \<open>getHints\<close> hands the stored one out,
  and \<open>addHint\<close> pushes onto it in place, so whoever holds the same array sees the
  item. A hint item is an object of type \<open>HintItem\<close>. The field
  \<open>_options\<close> has no initialiser: it is \<open>undefined\<close> (\<open>None\<close>) until the constructor
  assigns it. \<open>_hintsAutoRefreshFunction\<close> is optional.
\<close>

record hint =
  hints :: aref
  targetElement :: element
  options :: "props option"
  callbacks :: callbacks
  hintsAutoRefreshFunction :: "func option"

text \<open>
  Instances live in a heap and are passed by reference (\<open>this\<close>), so that "returns
  the instance" is a statement about a reference. Arrays live in a store of their
  own, \<open>arrays\<close>, which gives the elements of each array object; \<open>nextArray\<close> is
  the identity of the next array created. Beside them the page has its
  document, which only the collaborators of \<open>Hint\<close> read and write (its type is a
  parameter), and the listeners registered on \<open>window\<close>: event type, listener and
  the capture flag. \<open>nextRef\<close> and \<open>nextFunc\<close> are the identities of the next object
  and the next function object created; \<open>debounced\<close> lists the function objects
  that \<open>debounce\<close> has made, each with the instance it realigns and its wait.
\<close>

record 'dom world =
  heap :: "ref \<Rightarrow> hint"
  nextRef :: ref
  arrays :: "aref \<Rightarrow> jsvalue list"
  nextArray :: aref
  doc :: 'dom
  windowListeners :: "(string \<times> func \<times> bool) list"
  nextFunc :: nat
  debounced :: "(func \<times> ref \<times> jsvalue) list"

text \<open>
  A method returns a value or throws, and leaves a world; for an \<open>async\<close> method the
  result is how its promise settles (\<open>Inr\<close>: resolved, \<open>Inl\<close>: rejected).
\<close>

type_synonym ('a, 'dom) result = "(error + 'a) \<times> 'dom world"

definition update :: "ref \<Rightarrow> (hint \<Rightarrow> hint) \<Rightarrow> 'dom world \<Rightarrow> 'dom world" where
  "update this f w = w\<lparr>heap := (heap w)(this := f (heap w this))\<rparr>"

section \<open>Hint items\<close>

definition getTargetElement :: "ref \<Rightarrow> 'dom world \<Rightarrow> (element, 'dom) result" where
  "getTargetElement this w = (Inr (targetElement (heap w this)), w)"

text \<open>The elements of the array that \<open>_hints\<close> refers to.\<close>

definition hintItems :: "ref \<Rightarrow> 'dom world \<Rightarrow> jsvalue list" where
  "hintItems this w = arrays w (hints (heap w this))"

text \<open>\<open>xs.push(x)\<close>: the array object \<open>a\<close> gets \<open>x\<close> at its end, in place.\<close>

definition push :: "aref \<Rightarrow> jsvalue \<Rightarrow> 'dom world \<Rightarrow> 'dom world" where
  "push a x w = w\<lparr>arrays := (arrays w)(a := arrays w a @ [x])\<rparr>"

definition getHints :: "ref \<Rightarrow> 'dom world \<Rightarrow> (aref, 'dom) result" where
  "getHints this w = (Inr (hints (heap w this)), w)"

definition getHint :: "ref \<Rightarrow> number \<Rightarrow> 'dom world \<Rightarrow> (jsvalue, 'dom) result" where
  "getHint this stepId w = (Inr (arrayGet (arrays w (hints (heap w this))) stepId), w)"

definition setHints :: "ref \<Rightarrow> aref \<Rightarrow> 'dom world \<Rightarrow> (ref, 'dom) result" where
  "setHints this hs w = (Inr this, update this (\<lambda>h. h\<lparr>hints := hs\<rparr>) w)"

definition addHint :: "ref \<Rightarrow> jsvalue \<Rightarrow> 'dom world \<Rightarrow> (ref, 'dom) result" where
  "addHint this item w = (Inr this, push (hints (heap w this)) item w)"

text \<open>
  A step id corresponds to a stored hint item when it is an array index below the
  length of \<open>_hints\<close>.
\<close>

definition storedAt :: "jsvalue list \<Rightarrow> number \<Rightarrow> bool" where
  "storedAt xs k = (case arrayIndex k of Some n \<Rightarrow> n < length xs | None \<Rightarrow> False)"

text \<open>A sequence of \<open>addHint\<close> calls on one instance, in the order of the list.\<close>

primrec addHint_each :: "ref \<Rightarrow> jsvalue list \<Rightarrow> 'dom world \<Rightarrow> 'dom world" where
  "addHint_each this [] w = w"
| "addHint_each this (item # items) w = addHint_each this items (snd (addHint this item w))"

section \<open>Callbacks\<close>

datatype callbackName = HintsAdded | HintClick | HintClose

definition callback :: "ref \<Rightarrow> callbackName \<Rightarrow> 'dom world \<Rightarrow> (jsvalue, 'dom) result" where
  "callback this callbackName w =
     (let cbs = callbacks (heap w this);
          stored = (case callbackName of
                      HintsAdded \<Rightarrow> hintsAdded cbs
                    | HintClick \<Rightarrow> hintClick cbs
                    | HintClose \<Rightarrow> hintClose cbs);
          cb = (case stored of None \<Rightarrow> JUndefined | Some v \<Rightarrow> v)
      in if isFunction cb then (Inr cb, w) else (Inr JUndefined, w))"

definition onHintsAdded :: "ref \<Rightarrow> jsvalue \<Rightarrow> 'dom world \<Rightarrow> (ref, 'dom) result" where
  "onHintsAdded this providedCallback w =
     (if \<not> isFunction providedCallback
      then (Inl (Error ''Provided callback for onhintsadded was not a function.''), w)
      else (Inr this,
            update this
              (\<lambda>h. h\<lparr>callbacks := (callbacks h)\<lparr>hintsAdded := Some providedCallback\<rparr>\<rparr>) w))"

definition onHintClick :: "ref \<Rightarrow> jsvalue \<Rightarrow> 'dom world \<Rightarrow> (ref, 'dom) result" where
  "onHintClick this providedCallback w =
     (if \<not> isFunction providedCallback
      then (Inl (Error ''Provided callback for onhintclick was not a function.''), w)
      else (Inr this,
            update this
              (\<lambda>h. h\<lparr>callbacks := (callbacks h)\<lparr>hintClick := Some providedCallback\<rparr>\<rparr>) w))"

definition onHintClose :: "ref \<Rightarrow> jsvalue \<Rightarrow> 'dom world \<Rightarrow> (ref, 'dom) result" where
  "onHintClose this providedCallback w =
     (if isFunction providedCallback
      then (Inr this,
            update this
              (\<lambda>h. h\<lparr>callbacks := (callbacks h)\<lparr>hintClose := Some providedCallback\<rparr>\<rparr>) w)
      else (Inl (Error ''Provided callback for onhintclose was not a function.''), w))"

section \<open>Options\<close>

text \<open>
  \<open>this._options[key]\<close>: reading a property of \<open>undefined\<close> is a \<open>TypeError\<close>; a
  key the record does not have reads as \<open>undefined\<close>.
\<close>

definition getOption :: "ref \<Rightarrow> string \<Rightarrow> 'dom world \<Rightarrow> (jsvalue, 'dom) result" where
  "getOption this key w =
     (case options (heap w this) of
        None \<Rightarrow> (Inl (TypeError ''Cannot read properties of undefined''), w)
      | Some kvs \<Rightarrow> (Inr (case map_of kvs key of None \<Rightarrow> JUndefined | Some v \<Rightarrow> v), w))"

definition isActive :: "ref \<Rightarrow> 'dom world \<Rightarrow> (jsvalue, 'dom) result" where
  "isActive this w = getOption this ''isActive'' w"

text \<open>
  The functions \<open>setOptions\<close> and \<open>setOption\<close> of \<open>src/option\<close> and
  \<open>getDefaultHintOptions\<close> of \<open>./option\<close> are not part of the sources: the methods
  take them as parameters. They receive the value of \<open>_options\<close>, which may be
  \<open>undefined\<close>, may throw, and return the record to store.
\<close>

type_synonym setOptions_fn = "props option \<Rightarrow> props \<Rightarrow> error + props option"
type_synonym setOption_fn = "props option \<Rightarrow> string \<Rightarrow> jsvalue \<Rightarrow> error + props option"

definition setOptions ::
  "setOptions_fn \<Rightarrow> ref \<Rightarrow> props \<Rightarrow> 'dom world \<Rightarrow> (ref, 'dom) result" where
  "setOptions setOptions_fn this partialOptions w =
     (case setOptions_fn (options (heap w this)) partialOptions of
        Inl e \<Rightarrow> (Inl e, w)
      | Inr opts \<Rightarrow> (Inr this, update this (\<lambda>h. h\<lparr>options := opts\<rparr>) w))"

definition setOption ::
  "setOption_fn \<Rightarrow> ref \<Rightarrow> string \<Rightarrow> jsvalue \<Rightarrow> 'dom world \<Rightarrow> (ref, 'dom) result" where
  "setOption setOption_fn this key val w =
     (case setOption_fn (options (heap w this)) key val of
        Inl e \<Rightarrow> (Inl e, w)
      | Inr opts \<Rightarrow> (Inr this, update this (\<lambda>h. h\<lparr>options := opts\<rparr>) w))"

section \<open>Construction\<close>

text \<open>
  \<open>getContainerElement\<close> of \<open>util/containerElement\<close> is not part of the sources
  either: it resolves the optional element or selector against the document and may
  throw.

  The constructor runs after the field initialisers (\<open>_hints = []\<close>, a new
  array, and \<open>callbacks = {}\<close>). When \<open>options\<close> is given (an object is truthy) it stores
  \<open>setOptions(this._options, options)\<close>, and \<open>this._options\<close> has not been assigned at
  that point: the first argument is \<open>undefined\<close>. Only without \<open>options\<close> does it call
  \<open>getDefaultHintOptions()\<close>. An exception leaves no instance behind.
\<close>

datatype elementOrSelector = Selector string | Element element

type_synonym 'dom getContainerElement_fn =
  "elementOrSelector option \<Rightarrow> 'dom world \<Rightarrow> error + element"

definition Hint_new ::
  "'dom getContainerElement_fn \<Rightarrow> setOptions_fn \<Rightarrow> props \<Rightarrow>
   elementOrSelector option \<Rightarrow> props option \<Rightarrow> 'dom world \<Rightarrow> (ref, 'dom) result" where
  "Hint_new getContainerElement setOptions_fn getDefaultHintOptions elementOrSelector opts w =
     (case getContainerElement elementOrSelector w of
        Inl e \<Rightarrow> (Inl e, w)
      | Inr el \<Rightarrow>
          (case (case opts of
                   Some partialOptions \<Rightarrow> setOptions_fn None partialOptions
                 | None \<Rightarrow> Inr (Some getDefaultHintOptions)) of
             Inl e \<Rightarrow> (Inl e, w)
           | Inr stored \<Rightarrow>
               (Inr (nextRef w),
                w\<lparr>heap := (heap w)(nextRef w :=
                       \<lparr>hints = nextArray w,
                        targetElement = el,
                        options = stored,
                        callbacks = \<lparr>hintsAdded = None, hintClick = None, hintClose = None\<rparr>,
                        hintsAutoRefreshFunction = None\<rparr>),
                  nextRef := Suc (nextRef w),
                  arrays := (arrays w)(nextArray w := []),
                  nextArray := Suc (nextArray w)\<rparr>)))"

text \<open>\<open>clone\<close> is \<open>new Hint(this._targetElement, this._options)\<close>.\<close>

definition clone ::
  "'dom getContainerElement_fn \<Rightarrow> setOptions_fn \<Rightarrow> props \<Rightarrow>
   ref \<Rightarrow> 'dom world \<Rightarrow> (ref, 'dom) result" where
  "clone getContainerElement setOptions_fn getDefaultHintOptions this w =
     Hint_new getContainerElement setOptions_fn getDefaultHintOptions
       (Some (Element (targetElement (heap w this)))) (options (heap w this)) w"

section \<open>Rendering, hiding, showing, removing\<close>

text \<open>
  The functions that touch the document (\<open>fetchHintItems\<close>, \<open>renderHints\<close>,
  \<open>hideHint\<close>, \<open>hideHints\<close>, \<open>showHint\<close>, \<open>showHints\<close>, \<open>removeHint\<close>, \<open>removeHints\<close>,
  \<open>showHintDialog\<close>) are imported from modules that are not part of the sources.
  Each is a parameter of the method that calls it: it is handed the instance or a
  step id, may change the whole world (the instance through its public methods, the
  document, the listeners), and either completes or throws (an awaited promise that
  rejects throws at the \<open>await\<close>).
\<close>

type_synonym 'dom effect = "'dom world \<Rightarrow> error option \<times> 'dom world"

definition call :: "error option \<times> 'dom world \<Rightarrow> ('dom world \<Rightarrow> ('a, 'dom) result) \<Rightarrow> ('a, 'dom) result" where
  "call r k = (case r of (Some e, w) \<Rightarrow> (Inl e, w) | (None, w) \<Rightarrow> k w)"

definition render ::
  "(ref \<Rightarrow> 'dom effect) \<Rightarrow> (ref \<Rightarrow> 'dom effect) \<Rightarrow> ref \<Rightarrow> 'dom world \<Rightarrow> (ref, 'dom) result" where
  "render fetchHintItems renderHints this w =
     (case isActive this w of
        (Inl e, w') \<Rightarrow> (Inl e, w')
      | (Inr active, w') \<Rightarrow>
          if \<not> truthy active then (Inr this, w')
          else call (fetchHintItems this w')
                 (\<lambda>w1. call (renderHints this w1) (\<lambda>w2. (Inr this, w2))))"

definition addHints ::
  "(ref \<Rightarrow> 'dom effect) \<Rightarrow> (ref \<Rightarrow> 'dom effect) \<Rightarrow> ref \<Rightarrow> 'dom world \<Rightarrow> (ref, 'dom) result" where
  "addHints fetchHintItems renderHints this w = render fetchHintItems renderHints this w"

definition hideHint ::
  "(ref \<Rightarrow> number \<Rightarrow> 'dom effect) \<Rightarrow> ref \<Rightarrow> number \<Rightarrow> 'dom world \<Rightarrow> (ref, 'dom) result" where
  "hideHint hideHint_fn this stepId w = call (hideHint_fn this stepId w) (\<lambda>w'. (Inr this, w'))"

definition hideHints ::
  "(ref \<Rightarrow> 'dom effect) \<Rightarrow> ref \<Rightarrow> 'dom world \<Rightarrow> (ref, 'dom) result" where
  "hideHints hideHints_fn this w = call (hideHints_fn this w) (\<lambda>w'. (Inr this, w'))"

definition showHint ::
  "(number \<Rightarrow> 'dom effect) \<Rightarrow> ref \<Rightarrow> number \<Rightarrow> 'dom world \<Rightarrow> (ref, 'dom) result" where
  "showHint showHint_fn this stepId w = call (showHint_fn stepId w) (\<lambda>w'. (Inr this, w'))"

definition showHints ::
  "(ref \<Rightarrow> 'dom effect) \<Rightarrow> ref \<Rightarrow> 'dom world \<Rightarrow> (ref, 'dom) result" where
  "showHints showHints_fn this w = call (showHints_fn this w) (\<lambda>w'. (Inr this, w'))"

definition destroy ::
  "(ref \<Rightarrow> 'dom effect) \<Rightarrow> ref \<Rightarrow> 'dom world \<Rightarrow> (ref, 'dom) result" where
  "destroy removeHints_fn this w = call (removeHints_fn this w) (\<lambda>w'. (Inr this, w'))"

definition removeHints ::
  "(ref \<Rightarrow> 'dom effect) \<Rightarrow> ref \<Rightarrow> 'dom world \<Rightarrow> (ref, 'dom) result" where
  "removeHints removeHints_fn this w =
     (case destroy removeHints_fn this w of
        (Inl e, w') \<Rightarrow> (Inl e, w')
      | (Inr r, w') \<Rightarrow> (Inr this, w'))"

definition removeHint ::
  "(number \<Rightarrow> 'dom effect) \<Rightarrow> ref \<Rightarrow> number \<Rightarrow> 'dom world \<Rightarrow> (ref, 'dom) result" where
  "removeHint removeHint_fn this stepId w = call (removeHint_fn stepId w) (\<lambda>w'. (Inr this, w'))"

definition showHintDialog ::
  "(ref \<Rightarrow> number \<Rightarrow> 'dom effect) \<Rightarrow> ref \<Rightarrow> number \<Rightarrow> 'dom world \<Rightarrow> (ref, 'dom) result" where
  "showHintDialog showHintDialog_fn this stepId w =
     call (showHintDialog_fn this stepId w) (\<lambda>w'. (Inr this, w'))"

text \<open>
  Modelled from the spec: \<open>hint/remove\<close> is not part of the sources. The spec says
  of it that "destroy removes all previously rendered DOM hint markers and leaves the
  in-memory list callable but empty of rendered state". The document is modelled by
  the hint markers rendered in it, each with its step id; \<open>removeHints\<close> removes
  them all and changes nothing else.
\<close>

record document =
  hintMarkers :: "number list"

definition spec_removeHints :: "ref \<Rightarrow> document effect" where
  "spec_removeHints this w = (None, w\<lparr>doc := (doc w)\<lparr>hintMarkers := []\<rparr>\<rparr>)"

section \<open>Refreshing on scroll and resize\<close>

text \<open>
  Modelled from the spec: \<open>util/DOMEvent\<close> is not part of the sources. The spec
  calls it "a generic DOM event subscription wrapper" and speaks of "listener
  removal": \<open>on\<close> subscribes a listener as \<open>addEventListener\<close> does (a listener
  already registered for the same type and capture flag is not added twice), \<open>off\<close>
  removes it. Every call of \<open>hint.ts\<close> is on \<open>window\<close>.
\<close>

definition DOMEvent_on :: "string \<Rightarrow> func \<Rightarrow> bool \<Rightarrow> 'dom world \<Rightarrow> 'dom world" where
  "DOMEvent_on type listener useCapture w =
     (if (type, listener, useCapture) \<in> set (windowListeners w) then w
      else w\<lparr>windowListeners := windowListeners w @ [(type, listener, useCapture)]\<rparr>)"

definition DOMEvent_off :: "string \<Rightarrow> func \<Rightarrow> bool \<Rightarrow> 'dom world \<Rightarrow> 'dom world" where
  "DOMEvent_off type listener useCapture w =
     w\<lparr>windowListeners := removeAll (type, listener, useCapture) (windowListeners w)\<rparr>"

text \<open>
  Modelled from the spec: \<open>util/debounce\<close> is not part of the sources; "a debounce
  utility" returns a new function object, here for the closure
  \<open>() => reAlignHints(this)\<close> and the given wait. What the function does when an
  event calls it is not modelled.
\<close>

definition debounce :: "ref \<Rightarrow> jsvalue \<Rightarrow> 'dom world \<Rightarrow> func \<times> 'dom world" where
  "debounce realigned wait w =
     (Fn (nextFunc w),
      w\<lparr>nextFunc := Suc (nextFunc w),
        debounced := debounced w @ [(Fn (nextFunc w), realigned, wait)]\<rparr>)"

text \<open>
  \<open>x >= 0\<close> compares \<open>ToNumber(x)\<close> with zero, and \<open>NaN\<close> compares false. The
  option is typed \<open>number\<close>; \<open>undefined\<close> (the key is absent), \<open>null\<close> and a boolean
  are converted as the language defines. For a string, a function or an object the
  conversion is the engine's, a parameter.
\<close>

definition toNumber :: "(jsvalue \<Rightarrow> number) \<Rightarrow> jsvalue \<Rightarrow> number" where
  "toNumber coerce v =
     (case v of
        JUndefined \<Rightarrow> NaN
      | JNull \<Rightarrow> Finite 0
      | JBool b \<Rightarrow> Finite (if b then 1 else 0)
      | JNumber n \<Rightarrow> n
      | _ \<Rightarrow> coerce v)"

definition geq_zero :: "number \<Rightarrow> bool" where
  "geq_zero n = (case n of Finite r \<Rightarrow> 0 \<le> r | PosInfinity \<Rightarrow> True | _ \<Rightarrow> False)"

definition enableHintAutoRefresh ::
  "(jsvalue \<Rightarrow> number) \<Rightarrow> ref \<Rightarrow> 'dom world \<Rightarrow> (ref, 'dom) result" where
  "enableHintAutoRefresh coerce this w =
     (case getOption this ''hintAutoRefreshInterval'' w of
        (Inl e, w') \<Rightarrow> (Inl e, w')
      | (Inr hintAutoRefreshInterval, w') \<Rightarrow>
          if geq_zero (toNumber coerce hintAutoRefreshInterval) then
            (case debounce this hintAutoRefreshInterval w' of
               (f, w1) \<Rightarrow>
                 (Inr this,
                  DOMEvent_on ''resize'' f True
                    (DOMEvent_on ''scroll'' f True
                      (update this (\<lambda>h. h\<lparr>hintsAutoRefreshFunction := Some f\<rparr>) w1))))
          else (Inr this, w'))"

definition disableHintAutoRefresh :: "ref \<Rightarrow> 'dom world \<Rightarrow> (ref, 'dom) result" where
  "disableHintAutoRefresh this w =
     (case hintsAutoRefreshFunction (heap w this) of
        Some f \<Rightarrow>
          (Inr this,
           update this (\<lambda>h. h\<lparr>hintsAutoRefreshFunction := None\<rparr>)
             (DOMEvent_on ''resize'' f True (DOMEvent_off ''scroll'' f True w)))
      | None \<Rightarrow> (Inr this, w))"

section \<open>Collaborators and states for the examples\<close>

text \<open>
  Modelled from the spec: \<open>src/option\<close> is not part of the sources. The spec calls
  \<open>setOptions\<close> "an options merge utility (key/value override with defaults)" and
  the options "a small options record merged via shallow key overrides".
  \<open>assignOptions\<close> is the override of keys on the base: it assigns each entry of
  the partial record on the base (\<open>options[key] = value\<close>) and returns the base;
  assigning on \<open>undefined\<close> is a \<open>TypeError\<close>, and an empty partial record returns
  the base as it is. The spec does not speak of a base that is \<open>undefined\<close>, so
  the other way to write a merge is kept beside it: \<open>copyOptions\<close> builds a new
  record from the entries of the base, if there is one, overridden by those of the
  partial record. The methods above take the function as a parameter; these two
  are what the examples pass.
\<close>

definition assignOption :: setOption_fn where
  "assignOption base key val =
     (case base of
        None \<Rightarrow> Inl (TypeError ''Cannot set properties of undefined'')
      | Some kvs \<Rightarrow> Inr (Some (AList.update key val kvs)))"

fun assignOptions :: setOptions_fn where
  "assignOptions base [] = Inr base"
| "assignOptions base ((key, val) # rest) =
     (case assignOption base key val of
        Inl e \<Rightarrow> Inl e
      | Inr base' \<Rightarrow> assignOptions base' rest)"

definition copyOptions :: setOptions_fn where
  "copyOptions base partialOptions =
     Inr (Some (fold (\<lambda>(key, val). AList.update key val) partialOptions
                  (case base of None \<Rightarrow> [] | Some kvs \<Rightarrow> kvs)))"

text \<open>
  Modelled from the spec: "a DOM container/selector resolver", as an instance for
  the examples. Without an argument the container is the body (element 0), an
  element is its own container, and no selector matches.
\<close>

definition resolveContainer :: "'dom getContainerElement_fn" where
  "resolveContainer elementOrSelector w =
     (case elementOrSelector of
        None \<Rightarrow> Inr 0
      | Some (Element e) \<Rightarrow> Inr e
      | Some (Selector s) \<Rightarrow> Inl (Error ''no container matches the selector''))"

text \<open>Two collaborators for the examples: one that throws when called, one that completes.\<close>

definition failing :: "ref \<Rightarrow> 'dom effect" where
  "failing this w = (Some (Error ''called''), w)"

definition completing :: "ref \<Rightarrow> 'dom effect" where
  "completing this w = (None, w)"

definition defaults0 :: props where
  "defaults0 = [(''isActive'', JBool True), (''hintAutoRefreshInterval'', JNumber (Finite 10))]"

definition partial0 :: props where
  "partial0 = [(''hintAutoRefreshInterval'', JNumber (Finite 20))]"

definition itemA :: jsvalue where
  "itemA = JObject [(''hint'', JString ''first'')]"

definition itemB :: jsvalue where
  "itemB = JObject [(''hint'', JString ''second'')]"

definition itemC :: jsvalue where
  "itemC = JObject [(''hint'', JString ''third'')]"

text \<open>
  An instance as \<open>new Hint()\<close> leaves it, and a page that holds it at reference 0.
  Its list is array 0; the page also has the arrays \<open>[itemC]\<close> (array 1) and
  \<open>[itemA]\<close> (array 2).
\<close>

definition hint0 :: hint where
  "hint0 =
     \<lparr>hints = 0,
      targetElement = 0,
      options = Some defaults0,
      callbacks = \<lparr>hintsAdded = None, hintClick = None, hintClose = None\<rparr>,
      hintsAutoRefreshFunction = None\<rparr>"

definition world0 :: "'dom \<Rightarrow> 'dom world" where
  "world0 d =
     \<lparr>heap = (\<lambda>r. hint0), nextRef = 1,
      arrays = (\<lambda>a. [])(1 := [itemC], 2 := [itemA]), nextArray = 3,
      doc = d, windowListeners = [], nextFunc = 0, debounced = []\<rparr>"

text \<open>
  An inactive instance whose list is array 2, on a page that shows one hint marker.
\<close>

definition inactive0 :: hint where
  "inactive0 = hint0\<lparr>hints := 2, options := Some [(''isActive'', JBool False)]\<rparr>"

definition inactiveWorld :: "document world" where
  "inactiveWorld =
     \<lparr>heap = (\<lambda>r. inactive0), nextRef = 1,
      arrays = (\<lambda>a. [])(1 := [itemC], 2 := [itemA]), nextArray = 3,
      doc = \<lparr>hintMarkers = [Finite 0]\<rparr>,
      windowListeners = [], nextFunc = 0, debounced = []\<rparr>"

section \<open>Registering callbacks\<close>

text \<open>
  C1. For every value that is not a function, each of \<open>onHintsAdded\<close>,
  \<open>onHintClick\<close> and \<open>onHintClose\<close> throws an \<open>Error\<close> at once and leaves the world,
  the registered callbacks with it, as it was. For every function the registrar
  returns the instance and stores the function under its own key, so that
  \<open>callback\<close> hands it back.
\<close>

theorem registrars_check_isFunction:
  "(\<not> isFunction v \<longrightarrow>
      onHintsAdded this v w =
        (Inl (Error ''Provided callback for onhintsadded was not a function.''), w)
    \<and> onHintClick this v w =
        (Inl (Error ''Provided callback for onhintclick was not a function.''), w)
    \<and> onHintClose this v w =
        (Inl (Error ''Provided callback for onhintclose was not a function.''), w))
   \<and> (isFunction f \<longrightarrow>
      onHintsAdded this f w =
        (Inr this, update this (\<lambda>h. h\<lparr>callbacks := (callbacks h)\<lparr>hintsAdded := Some f\<rparr>\<rparr>) w)
    \<and> onHintClick this f w =
        (Inr this, update this (\<lambda>h. h\<lparr>callbacks := (callbacks h)\<lparr>hintClick := Some f\<rparr>\<rparr>) w)
    \<and> onHintClose this f w =
        (Inr this, update this (\<lambda>h. h\<lparr>callbacks := (callbacks h)\<lparr>hintClose := Some f\<rparr>\<rparr>) w)
    \<and> callback this HintsAdded (snd (onHintsAdded this f w)) = (Inr f, snd (onHintsAdded this f w))
    \<and> callback this HintClick (snd (onHintClick this f w)) = (Inr f, snd (onHintClick this f w))
    \<and> callback this HintClose (snd (onHintClose this f w)) = (Inr f, snd (onHintClose this f w)))"
  by (simp add: onHintsAdded_def onHintClick_def onHintClose_def callback_def update_def)

theorem registrars_check_isFunction_witness:
  "\<not> isFunction (JString ''click'')
   \<and> onHintsAdded 0 (JString ''click'') (world0 ()) =
       (Inl (Error ''Provided callback for onhintsadded was not a function.''), world0 ())
   \<and> onHintClick 0 (JString ''click'') (world0 ()) =
       (Inl (Error ''Provided callback for onhintclick was not a function.''), world0 ())
   \<and> onHintClose 0 (JString ''click'') (world0 ()) =
       (Inl (Error ''Provided callback for onhintclose was not a function.''), world0 ())
   \<and> isFunction (JFunction (Fn 7))
   \<and> fst (onHintsAdded 0 (JFunction (Fn 7)) (world0 ())) = Inr 0
   \<and> fst (onHintClick 0 (JFunction (Fn 7)) (world0 ())) = Inr 0
   \<and> fst (onHintClose 0 (JFunction (Fn 7)) (world0 ())) = Inr 0
   \<and> fst (callback 0 HintsAdded (snd (onHintsAdded 0 (JFunction (Fn 7)) (world0 ())))) =
       Inr (JFunction (Fn 7))
   \<and> fst (callback 0 HintClick (snd (onHintClick 0 (JFunction (Fn 7)) (world0 ())))) =
       Inr (JFunction (Fn 7))
   \<and> fst (callback 0 HintClose (snd (onHintClose 0 (JFunction (Fn 7)) (world0 ())))) =
       Inr (JFunction (Fn 7))"
proof -
  have n: "\<not> isFunction (JString ''click'')"
    by (simp add: isFunction_def)
  have f: "isFunction (JFunction (Fn 7))"
    by (simp add: isFunction_def)
  note t = registrars_check_isFunction [of "JString ''click''" 0 "world0 ()" "JFunction (Fn 7)"]
  from t n have rejected:
    "onHintsAdded 0 (JString ''click'') (world0 ()) =
       (Inl (Error ''Provided callback for onhintsadded was not a function.''), world0 ())"
    "onHintClick 0 (JString ''click'') (world0 ()) =
       (Inl (Error ''Provided callback for onhintclick was not a function.''), world0 ())"
    "onHintClose 0 (JString ''click'') (world0 ()) =
       (Inl (Error ''Provided callback for onhintclose was not a function.''), world0 ())"
    by blast+
  from t f have returned:
    "fst (onHintsAdded 0 (JFunction (Fn 7)) (world0 ())) = Inr 0"
    "fst (onHintClick 0 (JFunction (Fn 7)) (world0 ())) = Inr 0"
    "fst (onHintClose 0 (JFunction (Fn 7)) (world0 ())) = Inr 0"
    by simp_all
  from t f have stored:
    "callback 0 HintsAdded (snd (onHintsAdded 0 (JFunction (Fn 7)) (world0 ()))) =
       (Inr (JFunction (Fn 7)), snd (onHintsAdded 0 (JFunction (Fn 7)) (world0 ())))"
    "callback 0 HintClick (snd (onHintClick 0 (JFunction (Fn 7)) (world0 ()))) =
       (Inr (JFunction (Fn 7)), snd (onHintClick 0 (JFunction (Fn 7)) (world0 ())))"
    "callback 0 HintClose (snd (onHintClose 0 (JFunction (Fn 7)) (world0 ()))) =
       (Inr (JFunction (Fn 7)), snd (onHintClose 0 (JFunction (Fn 7)) (world0 ())))"
    by blast+
  show ?thesis
    by (simp only: n f rejected returned stored fst_conv simp_thms)
qed

section \<open>Adding, setting and reading hint items\<close>

lemma addHint_each_eq:
  "addHint_each this xs w =
     w\<lparr>arrays := (arrays w)(hints (heap w this) := arrays w (hints (heap w this)) @ xs)\<rparr>"
proof (induction xs arbitrary: w)
  case Nil
  show ?case by simp
next
  case (Cons x xs)
  let ?a = "hints (heap w this)"
  have "(\<lambda>a. if a = ?a then arrays w ?a @ x # xs
             else if a = ?a then arrays w ?a @ [x] else arrays w a) =
        (\<lambda>a. if a = ?a then arrays w ?a @ x # xs else arrays w a)"
    by auto
  then show ?case by (simp add: Cons.IH addHint_def push_def)
qed

lemma hintItems_addHint_each:
  "hintItems this (addHint_each this xs w) = hintItems this w @ xs"
  by (simp add: hintItems_def addHint_each_eq)

lemma arrayIndex_of_nat: "arrayIndex (Finite (of_nat n)) = Some n"
  by (simp add: arrayIndex_def)

lemma arrayGet_of_nat: "n < length xs \<Longrightarrow> arrayGet xs (Finite (of_nat n)) = xs ! n"
  by (simp add: arrayGet_def arrayIndex_of_nat)

lemma getHint_hintItems:
  "getHint this stepId w = (Inr (arrayGet (hintItems this w) stepId), w)"
  by (simp add: getHint_def hintItems_def)

text \<open>
  Every instance the constructor returns starts with an empty list, in an array of
  its own.
\<close>

lemma Hint_new_hints_empty:
  "Hint_new getContainerElement setOptions_fn getDefaultHintOptions elementOrSelector opts w =
     (Inr r, w') \<Longrightarrow>
   hintItems r w' = [] \<and> hints (heap w' r) = nextArray w"
  by (auto simp: Hint_new_def hintItems_def split: sum.splits option.splits)

text \<open>
  The array is shared, not copied: when two instances have been handed the same
  array, an item added through one is read through the other.
\<close>

lemma addHint_on_shared_array:
  "hintItems this' (snd (addHint this item (snd (setHints this' hs (snd (setHints this hs w)))))) =
     arrays w hs @ [item]"
  by (simp add: hintItems_def addHint_def push_def setHints_def update_def)

text \<open>
  The claim C2 as it is written fails on an instance that already holds items: after
  \<open>setHints([itemC])\<close>, \<open>addHint(itemA)\<close> and \<open>addHint(itemB)\<close>, two items have been
  added and \<open>getHint(0)\<close> is \<open>itemC\<close>, not the first of them.
\<close>

theorem getHint_after_addHint_counterexample:
  "(0::nat) < length [itemA, itemB]
   \<and> fst (getHint 0 (Finite 0) (addHint_each 0 [itemA, itemB] (snd (setHints 0 1 (world0 ()))))) =
       Inr itemC
   \<and> fst (getHint 0 (Finite 0) (addHint_each 0 [itemA, itemB] (snd (setHints 0 1 (world0 ()))))) \<noteq>
       Inr ([itemA, itemB] ! 0)"
  by (simp add: getHint_def addHint_each_eq setHints_def update_def world0_def
      arrayGet_def arrayIndex_def itemA_def itemC_def)

text \<open>
  C2, amended. \<open>addHint\<close> returns the instance and puts the item at the end of the
  array that \<open>_hints\<close> refers to, in place. After any sequence of \<open>addHint\<close> calls on
  an instance that held \<open>n\<close> items, the list is those \<open>n\<close> items followed by the items
  added, in the order of the calls: \<open>getHint(i)\<close> still reads the earlier item for every
  \<open>i < n\<close>, and \<open>getHint(n + j)\<close> is the \<open>j\<close>-th item added. On an instance whose list
  was empty, as that of every new instance is, \<open>getHint(j)\<close> is the \<open>j\<close>-th item added.
\<close>

theorem addHint_appends_in_order:
  "fst (addHint this item w) = Inr this
   \<and> hintItems this (snd (addHint this item w)) = hintItems this w @ [item]
   \<and> hintItems this (addHint_each this items w) = hintItems this w @ items
   \<and> getHints this (addHint_each this items w) =
       (Inr (hints (heap w this)), addHint_each this items w)
   \<and> (i < length (hintItems this w) \<longrightarrow>
        getHint this (Finite (of_nat i)) (addHint_each this items w) =
          (Inr (hintItems this w ! i), addHint_each this items w))
   \<and> (j < length items \<longrightarrow>
        getHint this (Finite (of_nat (length (hintItems this w) + j)))
            (addHint_each this items w) =
          (Inr (items ! j), addHint_each this items w))
   \<and> (hintItems this w = [] \<and> j < length items \<longrightarrow>
        getHint this (Finite (of_nat j)) (addHint_each this items w) =
          (Inr (items ! j), addHint_each this items w))"
proof -
  let ?old = "hintItems this w"
  let ?w' = "addHint_each this items w"
  have after: "hintItems this ?w' = ?old @ items"
    by (rule hintItems_addHint_each)
  have one: "hintItems this (snd (addHint this item w)) = ?old @ [item]"
    by (simp add: hintItems_def addHint_def push_def)
  have same: "getHints this ?w' = (Inr (hints (heap w this)), ?w')"
    by (simp add: getHints_def addHint_each_eq)
  have earlier: "getHint this (Finite (of_nat i)) ?w' = (Inr (?old ! i), ?w')"
    if "i < length ?old"
    using that by (simp add: getHint_hintItems after arrayGet_of_nat nth_append)
  have added: "getHint this (Finite (of_nat (length ?old + j))) ?w' = (Inr (items ! j), ?w')"
    if "j < length items"
  proof -
    have "arrayGet (?old @ items) (Finite (of_nat (length ?old + j))) =
            (?old @ items) ! (length ?old + j)"
      using that by (intro arrayGet_of_nat) simp
    then show ?thesis
      by (simp add: getHint_hintItems after del: of_nat_add)
  qed
  have fresh: "getHint this (Finite (of_nat j)) ?w' = (Inr (items ! j), ?w')"
    if "?old = []" "j < length items"
    using added [OF that(2)] that(1) by simp
  have first: "fst (addHint this item w) = Inr this"
    by (simp add: addHint_def)
  show ?thesis
    using first one after same earlier added fresh by blast
qed

theorem addHint_appends_in_order_witness:
  "hintItems 0 (world0 ()) = []
   \<and> (1::nat) < length [itemA, itemB]
   \<and> getHint 0 (Finite 1) (addHint_each 0 [itemA, itemB] (world0 ())) =
       (Inr itemB, addHint_each 0 [itemA, itemB] (world0 ()))
   \<and> hintItems 0 (addHint_each 0 [itemA, itemB] (world0 ())) = [itemA, itemB]
   \<and> (0::nat) < length (hintItems 0 (snd (setHints 0 1 (world0 ()))))
   \<and> getHint 0 (Finite 0) (addHint_each 0 [itemA, itemB] (snd (setHints 0 1 (world0 ())))) =
       (Inr itemC, addHint_each 0 [itemA, itemB] (snd (setHints 0 1 (world0 ()))))
   \<and> getHint 0 (Finite 2) (addHint_each 0 [itemA, itemB] (snd (setHints 0 1 (world0 ())))) =
       (Inr itemB, addHint_each 0 [itemA, itemB] (snd (setHints 0 1 (world0 ()))))"
proof -
  have e: "hintItems 0 (world0 ()) = []"
    by (simp add: hintItems_def world0_def hint0_def)
  have s: "hintItems 0 (snd (setHints 0 1 (world0 ()))) = [itemC]"
    by (simp add: hintItems_def setHints_def update_def world0_def)
  show ?thesis
    using e s
      addHint_appends_in_order [of 0 itemA "world0 ()" "[itemA, itemB]" 0 1]
      addHint_appends_in_order [of 0 itemA "snd (setHints 0 1 (world0 ()))"
        "[itemA, itemB]" 0 1]
    by simp
qed

text \<open>
  C3. \<open>setHints(hs)\<close> returns the instance and makes the array \<open>hs\<close> its list:
  \<open>getHints\<close> then returns that array, and the items of the instance, which
  \<open>getHint\<close> reads, are the elements of \<open>hs\<close>. Nothing of the earlier list is kept:
  the only change is that the field \<open>_hints\<close> of this instance refers to \<open>hs\<close>, so the
  world after the call does not depend on which list the instance held before.
\<close>

theorem setHints_replaces:
  "fst (setHints this hs w) = Inr this
   \<and> getHints this (snd (setHints this hs w)) = (Inr hs, snd (setHints this hs w))
   \<and> hintItems this (snd (setHints this hs w)) = arrays w hs
   \<and> fst (getHint this stepId (snd (setHints this hs w))) = Inr (arrayGet (arrays w hs) stepId)
   \<and> snd (setHints this hs (snd (setHints this old w))) = snd (setHints this hs w)
   \<and> snd (setHints this hs w) = w\<lparr>heap := (heap w)(this := (heap w this)\<lparr>hints := hs\<rparr>)\<rparr>"
  by (simp add: setHints_def getHints_def getHint_def hintItems_def update_def)

text \<open>
  C6. For a step id that does not correspond to a stored item (an index at or
  beyond the length of the list, a negative or fractional number, \<open>NaN\<close>, an
  infinity) \<open>getHint\<close> returns \<open>undefined\<close>: it does not throw, and the world is as
  before.
\<close>

theorem getHint_absent_is_undefined:
  "\<not> storedAt (hintItems this w) stepId \<Longrightarrow> getHint this stepId w = (Inr JUndefined, w)"
  by (simp add: storedAt_def getHint_hintItems arrayGet_def split: option.splits)

theorem getHint_absent_is_undefined_witness:
  "\<not> storedAt (hintItems 0 (addHint_each 0 [itemA, itemB] (world0 ()))) (Finite 2)
   \<and> getHint 0 (Finite 2) (addHint_each 0 [itemA, itemB] (world0 ())) =
       (Inr JUndefined, addHint_each 0 [itemA, itemB] (world0 ()))
   \<and> \<not> storedAt (hintItems 0 (addHint_each 0 [itemA, itemB] (world0 ()))) (Finite (- 1))
   \<and> getHint 0 (Finite (- 1)) (addHint_each 0 [itemA, itemB] (world0 ())) =
       (Inr JUndefined, addHint_each 0 [itemA, itemB] (world0 ()))
   \<and> \<not> storedAt (hintItems 0 (addHint_each 0 [itemA, itemB] (world0 ()))) (Finite (1 / 2))
   \<and> getHint 0 (Finite (1 / 2)) (addHint_each 0 [itemA, itemB] (world0 ())) =
       (Inr JUndefined, addHint_each 0 [itemA, itemB] (world0 ()))
   \<and> \<not> storedAt (hintItems 0 (addHint_each 0 [itemA, itemB] (world0 ()))) NaN
   \<and> getHint 0 NaN (addHint_each 0 [itemA, itemB] (world0 ())) =
       (Inr JUndefined, addHint_each 0 [itemA, itemB] (world0 ()))"
proof -
  let ?w = "addHint_each 0 [itemA, itemB] (world0 ())"
  have len: "hintItems 0 ?w = [itemA, itemB]"
    by (simp only: hintItems_addHint_each) (simp add: hintItems_def world0_def hint0_def)
  have a: "\<not> storedAt (hintItems 0 ?w) (Finite 2)"
    unfolding len by (simp add: storedAt_def arrayIndex_def)
  have b: "\<not> storedAt (hintItems 0 ?w) (Finite (- 1))"
    by (simp add: storedAt_def arrayIndex_def)
  have c: "\<not> storedAt (hintItems 0 ?w) (Finite (1 / 2))"
    by (simp add: storedAt_def arrayIndex_def)
  have d: "\<not> storedAt (hintItems 0 ?w) NaN"
    by (simp add: storedAt_def arrayIndex_def)
  show ?thesis
    using a b c d
      getHint_absent_is_undefined [OF a] getHint_absent_is_undefined [OF b]
      getHint_absent_is_undefined [OF c] getHint_absent_is_undefined [OF d]
    by simp
qed

section \<open>Rendering an inactive widget\<close>

text \<open>
  C4. When the option \<open>isActive\<close> of the instance is \<open>false\<close>, \<open>render\<close> (and its
  deprecated alias \<open>addHints\<close>) resolves to the instance and leaves the world as it
  was, whatever \<open>fetchHintItems\<close> and \<open>renderHints\<close> would do: neither is called.
\<close>

theorem render_inactive_is_noop:
  "options (heap w this) = Some opts \<Longrightarrow> map_of opts ''isActive'' = Some (JBool False) \<Longrightarrow>
   render fetchHintItems renderHints this w = (Inr this, w)
   \<and> addHints fetchHintItems renderHints this w = (Inr this, w)"
  by (simp add: addHints_def render_def isActive_def getOption_def truthy_def)

theorem render_inactive_is_noop_witness:
  "options (heap inactiveWorld 0) = Some [(''isActive'', JBool False)]
   \<and> map_of [(''isActive'', JBool False)] ''isActive'' = Some (JBool False)
   \<and> render failing failing 0 inactiveWorld = (Inr 0, inactiveWorld)
   \<and> addHints failing failing 0 inactiveWorld = (Inr 0, inactiveWorld)"
proof -
  have o: "options (heap inactiveWorld 0) = Some [(''isActive'', JBool False)]"
    by (simp add: inactiveWorld_def inactive0_def)
  have m: "map_of [(''isActive'', JBool False)] ''isActive'' = Some (JBool False)"
    by simp
  show ?thesis
    using o m render_inactive_is_noop [OF o m, of failing failing] by simp
qed

text \<open>On an active instance the same collaborators are called, and their exception shows.\<close>

lemma render_active_calls_collaborators:
  "render failing failing 0 (world0 d) = (Inl (Error ''called''), world0 d)"
  by (simp add: render_def isActive_def getOption_def truthy_def call_def failing_def
      world0_def hint0_def defaults0_def)

section \<open>Destroying the rendered hints\<close>

text \<open>
  C5. With \<open>removeHints\<close> as the spec describes it, \<open>destroy\<close> (and its deprecated
  alias \<open>removeHints\<close>) returns the instance and leaves no hint marker in the
  document, while the heap and the arrays are untouched: \<open>getHints\<close> and \<open>getHint\<close>
  return what they returned before.
\<close>

theorem destroy_removes_markers_keeps_hints:
  "fst (destroy spec_removeHints this w) = Inr this
   \<and> hintMarkers (doc (snd (destroy spec_removeHints this w))) = []
   \<and> heap (snd (destroy spec_removeHints this w)) = heap w
   \<and> arrays (snd (destroy spec_removeHints this w)) = arrays w
   \<and> fst (getHints this (snd (destroy spec_removeHints this w))) = fst (getHints this w)
   \<and> fst (getHint this stepId (snd (destroy spec_removeHints this w))) = fst (getHint this stepId w)
   \<and> removeHints spec_removeHints this w = destroy spec_removeHints this w"
  by (simp add: removeHints_def destroy_def spec_removeHints_def call_def getHints_def getHint_def)

theorem destroy_removes_markers_keeps_hints_witness:
  "hintMarkers (doc inactiveWorld) = [Finite 0]
   \<and> hintMarkers (doc (snd (destroy spec_removeHints 0 inactiveWorld))) = []
   \<and> fst (getHints 0 (snd (destroy spec_removeHints 0 inactiveWorld))) = Inr 2
   \<and> hintItems 0 (snd (destroy spec_removeHints 0 inactiveWorld)) = [itemA]
   \<and> fst (getHint 0 (Finite 0) (snd (destroy spec_removeHints 0 inactiveWorld))) = Inr itemA"
proof -
  have before:
    "hintMarkers (doc inactiveWorld) = [Finite 0]"
    "fst (getHints 0 inactiveWorld) = Inr 2"
    "hintItems 0 inactiveWorld = [itemA]"
    "fst (getHint 0 (Finite 0) inactiveWorld) = Inr itemA"
    by (simp_all add: getHints_def getHint_def hintItems_def arrayGet_def arrayIndex_def
        inactiveWorld_def inactive0_def)
  show ?thesis
    using before destroy_removes_markers_keeps_hints [of 0 inactiveWorld "Finite 0"]
    by (simp add: hintItems_def)
qed

section \<open>Chaining\<close>

text \<open>
  The claim C7 as it is written, with no condition, fails: \<open>hideHint\<close> awaits the
  imported \<open>hideHint\<close>, and when that throws the promise rejects and the instance
  is not returned. So does \<open>render\<close> on the instance
  that \<open>new Hint(el, {})\<close> leaves when the override assigns on its base: its options
  record is unassigned, and reading \<open>isActive\<close> is a \<open>TypeError\<close>.
\<close>

theorem operations_return_this_counterexample:
  "fst (hideHint (\<lambda>this stepId. failing this) 0 (Finite 0) (world0 ())) = Inl (Error ''called'')
   \<and> fst (hideHint (\<lambda>this stepId. failing this) 0 (Finite 0) (world0 ())) \<noteq> Inr 0
   \<and> fst (Hint_new resolveContainer assignOptions defaults0 None (Some []) (world0 ())) = Inr 1
   \<and> fst (render completing completing 1
         (snd (Hint_new resolveContainer assignOptions defaults0 None (Some []) (world0 ())))) =
       Inl (TypeError ''Cannot read properties of undefined'')"
  by (simp add: hideHint_def call_def failing_def Hint_new_def resolveContainer_def
      render_def isActive_def getOption_def world0_def)

text \<open>
  C7, amended. \<open>addHint\<close> and \<open>setHints\<close> return the instance. Each of \<open>render\<close>,
  \<open>hideHint\<close>, \<open>hideHints\<close>, \<open>showHint\<close>, \<open>showHints\<close>, \<open>destroy\<close> (with its alias
  \<open>removeHints\<close>), \<open>removeHint\<close> and \<open>showHintDialog\<close> returns the instance, the
  asynchronous ones as the value their promise resolves to, when the imported
  function it calls completes; for \<open>render\<close>, on an instance whose options record has
  been assigned.
\<close>

theorem operations_return_this:
  "fst (addHint this item w) = Inr this
   \<and> fst (setHints this hs w) = Inr this
   \<and> (options (heap w this) \<noteq> None
        \<and> fst (fetchHintItems this w) = None
        \<and> fst (renderHints this (snd (fetchHintItems this w))) = None \<longrightarrow>
      fst (render fetchHintItems renderHints this w) = Inr this)
   \<and> (fst (hideHint_fn this stepId w) = None \<longrightarrow>
      fst (hideHint hideHint_fn this stepId w) = Inr this)
   \<and> (fst (hideHints_fn this w) = None \<longrightarrow> fst (hideHints hideHints_fn this w) = Inr this)
   \<and> (fst (showHint_fn stepId w) = None \<longrightarrow>
      fst (showHint showHint_fn this stepId w) = Inr this)
   \<and> (fst (showHints_fn this w) = None \<longrightarrow> fst (showHints showHints_fn this w) = Inr this)
   \<and> (fst (removeHints_fn this w) = None \<longrightarrow>
      fst (destroy removeHints_fn this w) = Inr this
      \<and> fst (removeHints removeHints_fn this w) = Inr this)
   \<and> (fst (removeHint_fn stepId w) = None \<longrightarrow>
      fst (removeHint removeHint_fn this stepId w) = Inr this)
   \<and> (fst (showHintDialog_fn this stepId w) = None \<longrightarrow>
      fst (showHintDialog showHintDialog_fn this stepId w) = Inr this)"
proof -
  have call_ok: "fst (call r (\<lambda>w'. (Inr this, w'))) = (Inr this :: error + ref)"
    if "fst r = None" for r :: "error option \<times> 'a world"
    using that by (cases r) (simp add: call_def)
  have r: "fst (render fetchHintItems renderHints this w) = Inr this"
    if a: "options (heap w this) \<noteq> None" and b: "fst (fetchHintItems this w) = None"
      and c: "fst (renderHints this (snd (fetchHintItems this w))) = None"
  proof -
    obtain w1 where f: "fetchHintItems this w = (None, w1)"
      using b by (cases "fetchHintItems this w") simp
    obtain w2 where g: "renderHints this w1 = (None, w2)"
      using c f by (cases "renderHints this w1") simp
    show ?thesis
      using a f g by (auto simp: render_def isActive_def getOption_def call_def)
  qed
  have d: "fst (destroy removeHints_fn this w) = Inr this
           \<and> fst (removeHints removeHints_fn this w) = Inr this"
    if a: "fst (removeHints_fn this w) = None"
  proof -
    obtain w1 where f: "removeHints_fn this w = (None, w1)"
      using a by (cases "removeHints_fn this w") simp
    show ?thesis by (simp add: removeHints_def destroy_def call_def f)
  qed
  show ?thesis
    using r d
    by (simp add: addHint_def setHints_def hideHint_def hideHints_def showHint_def showHints_def
        removeHint_def showHintDialog_def call_ok)
qed

theorem operations_return_this_witness:
  "options (heap (world0 ()) 0) \<noteq> None
   \<and> fst (addHint 0 itemA (world0 ())) = Inr 0
   \<and> fst (setHints 0 2 (world0 ())) = Inr 0
   \<and> fst (render completing completing 0 (world0 ())) = Inr 0
   \<and> fst (hideHint (\<lambda>this stepId. completing this) 0 (Finite 0) (world0 ())) = Inr 0
   \<and> fst (hideHints completing 0 (world0 ())) = Inr 0
   \<and> fst (showHint (\<lambda>stepId. completing 0) 0 (Finite 0) (world0 ())) = Inr 0
   \<and> fst (showHints completing 0 (world0 ())) = Inr 0
   \<and> fst (destroy completing 0 (world0 ())) = Inr 0
   \<and> fst (removeHints completing 0 (world0 ())) = Inr 0
   \<and> fst (removeHint (\<lambda>stepId. completing 0) 0 (Finite 0) (world0 ())) = Inr 0
   \<and> fst (showHintDialog (\<lambda>this stepId. completing this) 0 (Finite 0) (world0 ())) = Inr 0"
proof -
  have o: "options (heap (world0 ()) 0) \<noteq> None"
    by (simp add: world0_def hint0_def)
  show ?thesis
    using o
      operations_return_this [of 0 itemA "world0 ()" 2 completing completing
        "\<lambda>this stepId. completing this" "Finite 0" completing "\<lambda>stepId. completing 0"
        completing completing "\<lambda>stepId. completing 0" "\<lambda>this stepId. completing this"]
    by (simp add: completing_def)
qed

text \<open>
  No method returns anything but the instance: it returns \<open>this\<close> or it throws, and
  it throws only what the collaborator throws or, in \<open>render\<close>, the \<open>TypeError\<close> of
  reading \<open>isActive\<close> from an unassigned record.
\<close>

lemma operations_return_this_or_throw:
  "(\<exists>e. fst (render fetchHintItems renderHints this w) = Inl e)
     \<or> fst (render fetchHintItems renderHints this w) = Inr this"
  "(\<exists>e. fst (hideHint hideHint_fn this stepId w) = Inl e)
     \<or> fst (hideHint hideHint_fn this stepId w) = Inr this"
  "(\<exists>e. fst (hideHints hideHints_fn this w) = Inl e)
     \<or> fst (hideHints hideHints_fn this w) = Inr this"
  "(\<exists>e. fst (showHint showHint_fn this stepId w) = Inl e)
     \<or> fst (showHint showHint_fn this stepId w) = Inr this"
  "(\<exists>e. fst (showHints showHints_fn this w) = Inl e)
     \<or> fst (showHints showHints_fn this w) = Inr this"
  "(\<exists>e. fst (destroy removeHints_fn this w) = Inl e)
     \<or> fst (destroy removeHints_fn this w) = Inr this"
  "(\<exists>e. fst (removeHint removeHint_fn this stepId w) = Inl e)
     \<or> fst (removeHint removeHint_fn this stepId w) = Inr this"
  "(\<exists>e. fst (showHintDialog showHintDialog_fn this stepId w) = Inl e)
     \<or> fst (showHintDialog showHintDialog_fn this stepId w) = Inr this"
  by (auto simp: render_def isActive_def getOption_def hideHint_def hideHints_def showHint_def
      showHints_def destroy_def removeHint_def showHintDialog_def call_def
      split: option.splits prod.splits)

text \<open>A collaborator that throws makes the method throw: the instance is not returned.\<close>

lemma hideHints_propagates_exception:
  "hideHints failing this w = (Inl (Error ''called''), w)"
  by (simp add: hideHints_def call_def failing_def)

section \<open>Switching the auto refresh off\<close>

text \<open>
  Whenever a refresh function is stored, \<open>disableHintAutoRefresh\<close> removes its
  \<open>scroll\<close> listener and clears the field, but calls \<open>DOMEvent.on\<close> for \<open>resize\<close>:
  the \<open>resize\<close> listener is registered when the method returns.
\<close>

lemma disableHintAutoRefresh_leaves_resize:
  "hintsAutoRefreshFunction (heap w this) = Some f \<Longrightarrow>
   (''resize'', f, True) \<in> set (windowListeners (snd (disableHintAutoRefresh this w)))
   \<and> (''scroll'', f, True) \<notin> set (windowListeners (snd (disableHintAutoRefresh this w)))
   \<and> hintsAutoRefreshFunction (heap (snd (disableHintAutoRefresh this w)) this) = None"
  by (simp add: disableHintAutoRefresh_def update_def DOMEvent_on_def DOMEvent_off_def)

text \<open>
  C8. On an instance with the option \<open>hintAutoRefreshInterval\<close> at 10,
  \<open>enableHintAutoRefresh\<close> registers the debounced function for \<open>scroll\<close> and for
  \<open>resize\<close>. After \<open>disableHintAutoRefresh\<close> the stored function is cleared and the
  \<open>scroll\<close> listener is gone, but the \<open>resize\<close> listener of the instance is still
  registered on \<open>window\<close>.
\<close>

theorem disableHintAutoRefresh_keeps_resize_listener:
  "windowListeners (snd (enableHintAutoRefresh coerce 0 (world0 d))) =
     [(''scroll'', Fn 0, True), (''resize'', Fn 0, True)]
   \<and> hintsAutoRefreshFunction (heap (snd (enableHintAutoRefresh coerce 0 (world0 d))) 0) =
       Some (Fn 0)
   \<and> fst (disableHintAutoRefresh 0 (snd (enableHintAutoRefresh coerce 0 (world0 d)))) = Inr 0
   \<and> windowListeners
         (snd (disableHintAutoRefresh 0 (snd (enableHintAutoRefresh coerce 0 (world0 d))))) =
       [(''resize'', Fn 0, True)]
   \<and> hintsAutoRefreshFunction
         (heap (snd (disableHintAutoRefresh 0 (snd (enableHintAutoRefresh coerce 0 (world0 d))))) 0) =
       None"
  by (simp add: enableHintAutoRefresh_def disableHintAutoRefresh_def getOption_def toNumber_def
      geq_zero_def debounce_def update_def DOMEvent_on_def DOMEvent_off_def world0_def hint0_def
      defaults0_def)

section \<open>Constructing with options\<close>

text \<open>Without an \<open>options\<close> argument the new instance holds the default options.\<close>

lemma Hint_new_without_options:
  "getContainerElement elementOrSelector w = Inr el \<Longrightarrow>
   Hint_new getContainerElement setOptions_fn getDefaultHintOptions elementOrSelector None w =
     (Inr (nextRef w),
      w\<lparr>heap := (heap w)(nextRef w :=
             \<lparr>hints = nextArray w, targetElement = el, options = Some getDefaultHintOptions,
              callbacks = \<lparr>hintsAdded = None, hintClick = None, hintClose = None\<rparr>,
              hintsAutoRefreshFunction = None\<rparr>),
        nextRef := Suc (nextRef w),
        arrays := (arrays w)(nextArray w := []),
        nextArray := Suc (nextArray w)\<rparr>)"
  by (simp add: Hint_new_def)

text \<open>
  C9. With an \<open>options\<close> argument the constructor hands \<open>setOptions\<close> the unassigned
  field and the argument, and never reads the default options: whatever
  \<open>setOptions\<close> is, the result is the same for any two records of defaults. For
  \<open>new Hint(undefined, {hintAutoRefreshInterval: 20})\<close> and defaults in which
  \<open>isActive\<close> is \<open>true\<close>, an override that assigns on the base throws, and one that
  copies leaves an instance on which \<open>getOption("isActive")\<close> is \<open>undefined\<close>; without
  the argument it is \<open>true\<close>.
\<close>

theorem Hint_new_with_options_ignores_defaults:
  "Hint_new getContainerElement setOptions_fn getDefaultHintOptions elementOrSelector
       (Some partialOptions) w =
     Hint_new getContainerElement setOptions_fn otherDefaults elementOrSelector
       (Some partialOptions) w
   \<and> fst (Hint_new resolveContainer assignOptions defaults0 None (Some partial0) (world0 d)) =
       Inl (TypeError ''Cannot set properties of undefined'')
   \<and> fst (Hint_new resolveContainer copyOptions defaults0 None (Some partial0) (world0 d)) = Inr 1
   \<and> fst (getOption 1 ''isActive''
         (snd (Hint_new resolveContainer copyOptions defaults0 None (Some partial0) (world0 d)))) =
       Inr JUndefined
   \<and> fst (getOption 1 ''isActive''
         (snd (Hint_new resolveContainer copyOptions defaults0 None None (world0 d)))) =
       Inr (JBool True)"
proof -
  have general:
    "Hint_new getContainerElement setOptions_fn getDefaultHintOptions elementOrSelector
         (Some partialOptions) w =
       Hint_new getContainerElement setOptions_fn otherDefaults elementOrSelector
         (Some partialOptions) w"
    by (simp add: Hint_new_def split: sum.splits)
  have assigned:
    "fst (Hint_new resolveContainer assignOptions defaults0 None (Some partial0) (world0 d)) =
       Inl (TypeError ''Cannot set properties of undefined'')"
    by (simp add: Hint_new_def resolveContainer_def assignOption_def partial0_def)
  have copied:
    "Hint_new resolveContainer copyOptions defaults0 None (Some partial0) (world0 d) =
       (Inr 1,
        (world0 d)\<lparr>heap := (heap (world0 d))(1 :=
             \<lparr>hints = 3, targetElement = 0, options = Some partial0,
              callbacks = \<lparr>hintsAdded = None, hintClick = None, hintClose = None\<rparr>,
              hintsAutoRefreshFunction = None\<rparr>),
          nextRef := 2,
          arrays := (arrays (world0 d))(3 := []),
          nextArray := 4\<rparr>)"
    by (simp add: Hint_new_def resolveContainer_def copyOptions_def partial0_def world0_def)
  have omitted:
    "fst (getOption 1 ''isActive''
       (snd (Hint_new resolveContainer copyOptions defaults0 None (Some partial0) (world0 d)))) =
     Inr JUndefined"
    unfolding copied by (simp add: getOption_def partial0_def)
  have default:
    "fst (getOption 1 ''isActive''
       (snd (Hint_new resolveContainer copyOptions defaults0 None None (world0 d)))) =
     Inr (JBool True)"
    by (simp add: Hint_new_def resolveContainer_def getOption_def defaults0_def world0_def)
  show ?thesis
    using general assigned copied omitted default by simp
qed

section \<open>Cloning\<close>

text \<open>
  \<open>clone\<close> runs the constructor on the target element and the options of the
  instance. When the constructor returns, the clone is a new object with an empty
  list in an array of its own, no callbacks and no refresh function, and nothing
  that existed before has changed.
\<close>

lemma clone_new_instance:
  assumes "clone getContainerElement setOptions_fn getDefaultHintOptions this w = (Inr r, w')"
  shows "r = nextRef w \<and> nextRef w' = Suc (nextRef w)
         \<and> hints (heap w' r) = nextArray w \<and> hintItems r w' = []
         \<and> callbacks (heap w' r) = \<lparr>hintsAdded = None, hintClick = None, hintClose = None\<rparr>
         \<and> hintsAutoRefreshFunction (heap w' r) = None
         \<and> (\<forall>r'. r' \<noteq> r \<longrightarrow> heap w' r' = heap w r')
         \<and> (\<forall>a. a \<noteq> nextArray w \<longrightarrow> arrays w' a = arrays w a)
         \<and> doc w' = doc w \<and> windowListeners w' = windowListeners w"
  using assms
  by (auto simp: clone_def Hint_new_def hintItems_def split: sum.splits option.splits)

text \<open>
  Whether the constructor returns is the answer of \<open>setOptions\<close> on the unassigned
  base. An override that copied onto a new record would give the clone the options
  of the original.
\<close>

lemma clone_when_override_copies:
  "fst (clone resolveContainer copyOptions defaults0 0 (world0 d)) = Inr 1
   \<and> options (heap (snd (clone resolveContainer copyOptions defaults0 0 (world0 d))) 1) =
       options (heap (world0 d) 0)
   \<and> targetElement (heap (snd (clone resolveContainer copyOptions defaults0 0 (world0 d))) 1) =
       targetElement (heap (world0 d) 0)"
  by (simp add: clone_def Hint_new_def resolveContainer_def copyOptions_def world0_def hint0_def
      defaults0_def)


end
